theory Spec2Isabelle
  imports Main "HOL-Library.Word"
begin

unbundle bit_operations_syntax

section \<open>Machine integers of the driver\<close>

text \<open>
  The driver uses four fixed-width integer types. All are words; an unsigned one is read
  with \<open>uint\<close>, the signed \<open>int8_t\<close> with \<open>sint\<close> (two's complement), so that
  \<open>- 1 :: int8_t\<close> and \<open>255 :: uint8_t\<close> are the same eight bits read in two ways.
\<close>

type_synonym uint8_t = "8 word"
type_synonym int8_t = "8 word"
type_synonym uint16_t = "16 word"
type_synonym uint32_t = "32 word"

section \<open>The collaborator: a debounced switch\<close>

text \<open>
  \<open>DebouncedSwitch<Pin>\<close> is declared in \<open>avrlib/devices/debounce.h\<close>, which the driver
  only includes. The driver calls four of its static members and never looks inside, so
  the switch is a parameter of the model: \<open>'sw\<close> is whatever one switch keeps (its
  history, its flag, the pin it samples and what that pin will deliver), and the record
  below holds the four members as functions on it. \<open>sw_Read\<close> samples the pin and
  returns the new history; \<open>sw_raised\<close> returns the transition flag and may change the
  switch (a one-shot flag is cleared by reading it); \<open>sw_immediate_value\<close> is the raw
  level of the pin.
\<close>

record 'sw DebouncedSwitch =
  sw_Init :: "'sw \<Rightarrow> 'sw"
  sw_Read :: "'sw \<Rightarrow> uint8_t \<times> 'sw"
  sw_raised :: "'sw \<Rightarrow> uint8_t \<times> 'sw"
  sw_immediate_value :: "'sw \<Rightarrow> uint8_t"

section \<open>RotaryEncoder\<close>

text \<open>
  The static state of one \<open>RotaryEncoder<A, B, Click, debounce_time>\<close>: the three
  switches it instantiates (three distinct pin types, hence three separate states) and
  its own \<open>next_readout_\<close>. A name cannot end in an underscore here, so the static
  members \<open>next_readout_\<close>, \<open>increment_\<close> and \<open>clicked_\<close> of the source are the
  fields \<open>next_readout'\<close>, \<open>increment'\<close> and \<open>clicked'\<close>.
\<close>

record 'sw RotaryEncoder =
  SwitchA :: 'sw
  SwitchB :: 'sw
  SwitchClick :: 'sw
  next_readout' :: uint32_t

definition RotaryEncoder_Init :: "'sw DebouncedSwitch \<Rightarrow> 'sw RotaryEncoder \<Rightarrow> 'sw RotaryEncoder" where
  "RotaryEncoder_Init sw s =
     s\<lparr>SwitchA := sw_Init sw (SwitchA s),
       SwitchB := sw_Init sw (SwitchB s),
       SwitchClick := sw_Init sw (SwitchClick s),
       next_readout' := 0\<rparr>"

text \<open>
  \<open>Read\<close>: sample A, sample B, choose the increment, sample the button, return the
  increment. The result is the returned \<open>int8_t\<close> and the state after the call.
\<close>

definition RotaryEncoder_Read :: "'sw DebouncedSwitch \<Rightarrow> 'sw RotaryEncoder \<Rightarrow> int8_t \<times> 'sw RotaryEncoder" where
  "RotaryEncoder_Read sw s =
     (let increment = 0;
          (a, swA) = sw_Read sw (SwitchA s);
          (b, swB) = sw_Read sw (SwitchB s);
          increment =
            (if a = 0x80 \<and> (b AND 0xf0) = 0x00 then 1
             else if b = 0x80 \<and> (a AND 0xf0) = 0x00 then - 1
             else increment);
          (_, swClick) = sw_Read sw (SwitchClick s)
      in (increment, s\<lparr>SwitchA := swA, SwitchB := swB, SwitchClick := swClick\<rparr>))"

text \<open>
  \<open>TimedRead\<close>: \<open>t\<close> is the value \<open>milliseconds()\<close> returns at the call (the clock is
  outside the driver), \<open>debounce_time\<close> the \<open>uint16_t\<close> template argument. The
  comparison is the unsigned \<open>>=\<close> of two \<open>uint32_t\<close>; the sum is a \<open>uint32_t\<close> sum
  and wraps.
\<close>

definition RotaryEncoder_TimedRead ::
  "'sw DebouncedSwitch \<Rightarrow> uint16_t \<Rightarrow> uint32_t \<Rightarrow> 'sw RotaryEncoder \<Rightarrow> int8_t \<times> 'sw RotaryEncoder" where
  "RotaryEncoder_TimedRead sw debounce_time t s =
     (let increment = 0
      in if t \<ge> next_readout' s
         then RotaryEncoder_Read sw (s\<lparr>next_readout' := t + ucast debounce_time\<rparr>)
         else (increment, s))"

definition RotaryEncoder_clicked :: "'sw DebouncedSwitch \<Rightarrow> 'sw RotaryEncoder \<Rightarrow> uint8_t \<times> 'sw RotaryEncoder" where
  "RotaryEncoder_clicked sw s =
     (let (r, swClick) = sw_raised sw (SwitchClick s) in (r, s\<lparr>SwitchClick := swClick\<rparr>))"

definition RotaryEncoder_immediate_value :: "'sw DebouncedSwitch \<Rightarrow> 'sw RotaryEncoder \<Rightarrow> uint8_t" where
  "RotaryEncoder_immediate_value sw s = sw_immediate_value sw (SwitchClick s)"

section \<open>RotaryEncoderTracker\<close>

record 'sw RotaryEncoderTracker =
  Encoder :: "'sw RotaryEncoder"
  increment' :: int8_t
  clicked' :: uint8_t

definition RotaryEncoderTracker_Init ::
  "'sw DebouncedSwitch \<Rightarrow> 'sw RotaryEncoderTracker \<Rightarrow> 'sw RotaryEncoderTracker" where
  "RotaryEncoderTracker_Init sw s = s\<lparr>Encoder := RotaryEncoder_Init sw (Encoder s)\<rparr>"

text \<open>\<open>!increment_\<close> and \<open>!clicked_\<close> hold exactly when the field is zero.\<close>

definition RotaryEncoderTracker_Read ::
  "'sw DebouncedSwitch \<Rightarrow> 'sw RotaryEncoderTracker \<Rightarrow> 'sw RotaryEncoderTracker" where
  "RotaryEncoderTracker_Read sw s =
     (let s1 = (if increment' s = 0
                then (let (r, e) = RotaryEncoder_Read sw (Encoder s)
                      in s\<lparr>Encoder := e, increment' := r\<rparr>)
                else s);
          s2 = (if clicked' s1 = 0
                then (let (c, e) = RotaryEncoder_clicked sw (Encoder s1)
                      in s1\<lparr>Encoder := e, clicked' := c\<rparr>)
                else s1)
      in s2)"

definition RotaryEncoderTracker_clicked :: "'sw RotaryEncoderTracker \<Rightarrow> uint8_t" where
  "RotaryEncoderTracker_clicked s = clicked' s"

text \<open>
  \<open>increment()\<close> is declared to return \<open>uint8_t\<close> while the field is an \<open>int8_t\<close>:
  the return statement converts the signed value to the unsigned type, modulo \<open>2 ^ 8\<close>.
\<close>

definition RotaryEncoderTracker_increment :: "'sw RotaryEncoderTracker \<Rightarrow> uint8_t" where
  "RotaryEncoderTracker_increment s = word_of_int (sint (increment' s))"

definition RotaryEncoderTracker_immediate_value ::
  "'sw DebouncedSwitch \<Rightarrow> 'sw RotaryEncoderTracker \<Rightarrow> uint8_t" where
  "RotaryEncoderTracker_immediate_value sw s = RotaryEncoder_immediate_value sw (Encoder s)"

definition RotaryEncoderTracker_Flush :: "'sw RotaryEncoderTracker \<Rightarrow> 'sw RotaryEncoderTracker" where
  "RotaryEncoderTracker_Flush s = s\<lparr>increment' := 0, clicked' := 0\<rparr>"

section \<open>The spec's deadline test\<close>

text \<open>
  The spec asks for the deadline test to be done by modular arithmetic, "in the
  \<open>(now - deadline) as signed >= 0\<close> style". This is that test, word for word, to be
  compared with the comparison \<open>TimedRead\<close> makes.
\<close>

definition spec_deadline_reached :: "uint32_t \<Rightarrow> uint32_t \<Rightarrow> bool" where
  "spec_deadline_reached now deadline \<longleftrightarrow> 0 \<le> sint (now - deadline)"

section \<open>A scripted switch, for running the driver on concrete inputs\<close>

text \<open>
  To evaluate the driver, the switch parameter needs a value. The scripted switch is a
  stand-in whose state is the list of histories its next calls of \<open>Read\<close> return, in
  order (\<open>0xff\<close>, an idle pulled-up pin, once the list is used up), and the flag
  \<open>raised\<close> returns, which reading clears.
\<close>

type_synonym script = "uint8_t list \<times> uint8_t"

definition scripted_switch :: "script DebouncedSwitch" where
  "scripted_switch =
     \<lparr>sw_Init = (\<lambda>q. q),
      sw_Read = (\<lambda>(hs, f). case hs of [] \<Rightarrow> (0xff, ([], f)) | h # r \<Rightarrow> (h, (r, f))),
      sw_raised = (\<lambda>(hs, f). (f, (hs, 0))),
      sw_immediate_value = (\<lambda>(hs, f). 1)\<rparr>"

section \<open>What one call of the decoder's Read does\<close>

lemma RotaryEncoder_Read_state:
  "snd (RotaryEncoder_Read sw s) =
     s\<lparr>SwitchA := snd (sw_Read sw (SwitchA s)),
       SwitchB := snd (sw_Read sw (SwitchB s)),
       SwitchClick := snd (sw_Read sw (SwitchClick s))\<rparr>"
  by (simp add: RotaryEncoder_Read_def split: prod.splits)

lemma RotaryEncoder_Read_value:
  "fst (RotaryEncoder_Read sw s) =
     (if fst (sw_Read sw (SwitchA s)) = 0x80 \<and> fst (sw_Read sw (SwitchB s)) AND 0xf0 = 0 then 1
      else if fst (sw_Read sw (SwitchB s)) = 0x80 \<and> fst (sw_Read sw (SwitchA s)) AND 0xf0 = 0
      then - 1 else 0)"
  by (simp add: RotaryEncoder_Read_def split: prod.splits)

lemma RotaryEncoder_clicked_eq:
  "RotaryEncoder_clicked sw s =
     (fst (sw_raised sw (SwitchClick s)), s\<lparr>SwitchClick := snd (sw_raised sw (SwitchClick s))\<rparr>)"
  by (simp add: RotaryEncoder_clicked_def split: prod.splits)

text \<open>
  C4. Let \<open>a\<close> and \<open>b\<close> be the histories that sampling channel A and channel B returns
  during the call. \<open>Read\<close> returns \<open>+1\<close> if and only if \<open>a = 0x80\<close> and
  \<open>b & 0xF0 = 0\<close>, for all 8-bit histories.
\<close>

theorem Read_plus_one_iff:
  "fst (RotaryEncoder_Read sw s) = 1 \<longleftrightarrow>
     fst (sw_Read sw (SwitchA s)) = 0x80 \<and> fst (sw_Read sw (SwitchB s)) AND 0xF0 = 0"
  by (simp add: RotaryEncoder_Read_value)

theorem Read_plus_one_iff_witness:
  "fst (RotaryEncoder_Read scripted_switch
      \<lparr>SwitchA = ([0x80], 0), SwitchB = ([0x00], 0), SwitchClick = ([], 0),
       next_readout' = 0\<rparr>) = 1 \<and>
   fst (RotaryEncoder_Read scripted_switch
      \<lparr>SwitchA = ([0x80], 0), SwitchB = ([0x10], 0), SwitchClick = ([], 0),
       next_readout' = 0\<rparr>) \<noteq> 1"
  using
    Read_plus_one_iff [where sw = scripted_switch and s = "\<lparr>SwitchA = ([0x80], 0),
      SwitchB = ([0x00], 0), SwitchClick = ([], 0), next_readout' = 0\<rparr>"]
    Read_plus_one_iff [where sw = scripted_switch and s = "\<lparr>SwitchA = ([0x80], 0),
      SwitchB = ([0x10], 0), SwitchClick = ([], 0), next_readout' = 0\<rparr>"]
  by (simp add: scripted_switch_def)

text \<open>
  C5. With \<open>a\<close> and \<open>b\<close> as above, \<open>Read\<close> returns \<open>-1\<close> if and only if
  \<open>b = 0x80\<close> and \<open>a & 0xF0 = 0\<close> and the \<open>+1\<close> condition does not hold as well; for
  every pair of histories that meets neither condition it returns \<open>0\<close>.
\<close>

theorem Read_minus_one_iff:
  "(fst (RotaryEncoder_Read sw s) = - 1 \<longleftrightarrow>
      fst (sw_Read sw (SwitchB s)) = 0x80 \<and> fst (sw_Read sw (SwitchA s)) AND 0xF0 = 0 \<and>
      \<not> (fst (sw_Read sw (SwitchA s)) = 0x80 \<and> fst (sw_Read sw (SwitchB s)) AND 0xF0 = 0)) \<and>
   (\<not> (fst (sw_Read sw (SwitchA s)) = 0x80 \<and> fst (sw_Read sw (SwitchB s)) AND 0xF0 = 0) \<and>
    \<not> (fst (sw_Read sw (SwitchB s)) = 0x80 \<and> fst (sw_Read sw (SwitchA s)) AND 0xF0 = 0)
      \<longrightarrow> fst (RotaryEncoder_Read sw s) = 0)"
  by (simp add: RotaryEncoder_Read_value)

theorem Read_minus_one_iff_witness:
  "fst (RotaryEncoder_Read scripted_switch
      \<lparr>SwitchA = ([0x00], 0), SwitchB = ([0x80], 0), SwitchClick = ([], 0),
       next_readout' = 0\<rparr>) = - 1 \<and>
   fst (RotaryEncoder_Read scripted_switch
      \<lparr>SwitchA = ([0xFF], 0), SwitchB = ([0xFF], 0), SwitchClick = ([], 0),
       next_readout' = 0\<rparr>) = 0"
  using
    Read_minus_one_iff [where sw = scripted_switch and s = "\<lparr>SwitchA = ([0x00], 0),
      SwitchB = ([0x80], 0), SwitchClick = ([], 0), next_readout' = 0\<rparr>"]
    Read_minus_one_iff [where sw = scripted_switch and s = "\<lparr>SwitchA = ([0xFF], 0),
      SwitchB = ([0xFF], 0), SwitchClick = ([], 0), next_readout' = 0\<rparr>"]
  by (simp add: scripted_switch_def)

text \<open>
  C1, as the spec has it: with both histories exactly \<open>0x80\<close> the \<open>+1\<close> branch wins.
  It does not: the call below samples \<open>0x80\<close> on both channels and returns \<open>0\<close>.
\<close>

theorem tie_break_counterexample:
  "fst (sw_Read scripted_switch ([0x80], 0)) = 0x80 \<and>
   fst (RotaryEncoder_Read scripted_switch
      \<lparr>SwitchA = ([0x80], 0), SwitchB = ([0x80], 0), SwitchClick = ([], 0),
       next_readout' = 0\<rparr>) = 0 \<and>
   fst (RotaryEncoder_Read scripted_switch
      \<lparr>SwitchA = ([0x80], 0), SwitchB = ([0x80], 0), SwitchClick = ([], 0),
       next_readout' = 0\<rparr>) \<noteq> 1"
  by (simp add: RotaryEncoder_Read_def scripted_switch_def)

text \<open>
  C1, amended: when both sampled histories are exactly \<open>0x80\<close>, \<open>Read\<close> returns \<open>0\<close>.
  Each branch asks for the other channel's upper nibble to be clear, and \<open>0x80\<close> has
  bit 7 set, so neither branch is taken; the \<open>+1\<close> and the \<open>-1\<close> condition never
  hold together, whatever the histories, and there is no tie to break.
\<close>

theorem no_tie_to_break:
  "(fst (sw_Read sw (SwitchA s)) = 0x80 \<and> fst (sw_Read sw (SwitchB s)) = 0x80
      \<longrightarrow> fst (RotaryEncoder_Read sw s) = 0) \<and>
   \<not> ((fst (sw_Read sw (SwitchA s)) = 0x80 \<and> fst (sw_Read sw (SwitchB s)) AND 0xF0 = 0) \<and>
      (fst (sw_Read sw (SwitchB s)) = 0x80 \<and> fst (sw_Read sw (SwitchA s)) AND 0xF0 = 0))"
  by (auto simp add: RotaryEncoder_Read_value)

theorem no_tie_to_break_witness:
  "fst (sw_Read scripted_switch ([0x80], 0)) = 0x80 \<and>
   fst (RotaryEncoder_Read scripted_switch
      \<lparr>SwitchA = ([0x80], 0), SwitchB = ([0x80], 0), SwitchClick = ([0x7f], 0),
       next_readout' = 5\<rparr>) = 0"
  using no_tie_to_break [where sw = scripted_switch and s = "\<lparr>SwitchA = ([0x80], 0),
      SwitchB = ([0x80], 0), SwitchClick = ([0x7f], 0), next_readout' = 5\<rparr>"]
  by (simp add: scripted_switch_def)

text \<open>
  C8. Every call of \<open>Read\<close> samples the button: the button switch after the call is the
  one its own \<open>Read\<close> leaves, whatever increment is returned (so also when it is \<open>0\<close>),
  next to the two channels, each sampled once, and nothing else of the encoder changes.
  The transition flag is not read there; \<open>clicked()\<close> reads it, by calling \<open>raised()\<close>
  on the button switch.
\<close>

theorem Read_samples_button:
  "SwitchClick (snd (RotaryEncoder_Read sw s)) = snd (sw_Read sw (SwitchClick s)) \<and>
   snd (RotaryEncoder_Read sw s) =
     s\<lparr>SwitchA := snd (sw_Read sw (SwitchA s)),
       SwitchB := snd (sw_Read sw (SwitchB s)),
       SwitchClick := snd (sw_Read sw (SwitchClick s))\<rparr> \<and>
   fst (RotaryEncoder_clicked sw s) = fst (sw_raised sw (SwitchClick s)) \<and>
   snd (RotaryEncoder_clicked sw s) = s\<lparr>SwitchClick := snd (sw_raised sw (SwitchClick s))\<rparr>"
  by (simp add: RotaryEncoder_Read_state RotaryEncoder_clicked_eq)

section \<open>The rate limiter\<close>

subsection \<open>Signed reading of a 32-bit difference\<close>

lemma wrap_int:
  fixes D :: int
  assumes "- 4294967296 < D" "D < 4294967296"
  shows "(D + 2147483648) mod 4294967296 - 2147483648 =
     (if D < - 2147483648 then D + 4294967296 else if D < 2147483648 then D else D - 4294967296)"
proof -
  consider "D < - 2147483648" | "- 2147483648 \<le> D \<and> D < 2147483648" | "2147483648 \<le> D"
    by linarith
  then show ?thesis
  proof cases
    case 1
    have "(D + 2147483648) mod 4294967296 = D + 2147483648 + 4294967296"
      using assms 1 by (intro int_mod_pos_eq [where q = "- 1"]) simp_all
    with 1 show ?thesis by simp
  next
    case 2
    have "(D + 2147483648) mod 4294967296 = D + 2147483648"
      using assms 2 by (intro int_mod_pos_eq [where q = 0]) simp_all
    with 2 show ?thesis by simp
  next
    case 3
    have "(D + 2147483648) mod 4294967296 = D + 2147483648 - 4294967296"
      using assms 3 by (intro int_mod_pos_eq [where q = 1]) simp_all
    with 3 show ?thesis by simp
  qed
qed

lemma uint32_diff_bounds:
  fixes t n :: uint32_t
  shows "- 4294967296 < uint t - uint n \<and> uint t - uint n < 4294967296"
proof -
  have "uint t < 4294967296" "uint n < 4294967296"
    using uint_lt2p [of t] uint_lt2p [of n] by simp_all
  moreover have "0 \<le> uint t" "0 \<le> uint n"
    by simp_all
  ultimately show ?thesis by linarith
qed

lemma sint_diff32:
  fixes t n :: uint32_t
  shows "sint (t - n) =
     (if uint t - uint n < - (2 ^ 31) then uint t - uint n + 2 ^ 32
      else if uint t - uint n < 2 ^ 31 then uint t - uint n
      else uint t - uint n - 2 ^ 32)"
proof -
  have lo: "- 4294967296 < uint t - uint n" and hi: "uint t - uint n < 4294967296"
    using uint32_diff_bounds [of t n] by simp_all
  have m: "uint (t - n) = take_bit 32 (uint t - uint n)"
    by (simp add: uint_word_ariths take_bit_eq_mod)
  have "sint (t - n) = signed_take_bit 31 (uint (t - n))"
    by (simp add: sint_uint)
  also have "\<dots> = signed_take_bit 31 (uint t - uint n)"
    unfolding m by (simp add: signed_take_bit_take_bit)
  also have "\<dots> = (uint t - uint n + 2 ^ 31) mod 2 ^ 32 - 2 ^ 31"
    by (simp add: signed_take_bit_eq_take_bit_shift take_bit_eq_mod)
  finally show ?thesis using wrap_int [of "uint t - uint n"] lo hi by simp
qed

lemma unsigned_test_agrees_iff: "(n \<le> t \<longleftrightarrow> spec_deadline_reached t n) \<longleftrightarrow>
   (- (2 ^ 31) \<le> uint t - uint n \<and> uint t - uint n < 2 ^ 31)"
  for t n :: uint32_t
proof -
  have lo: "- 4294967296 < uint t - uint n" and hi: "uint t - uint n < 4294967296"
    using uint32_diff_bounds [of t n] by simp_all
  show ?thesis
    unfolding spec_deadline_reached_def sint_diff32 word_le_def using lo hi by auto
qed

lemma before_wrapped_deadline:
  fixes t1 t2 :: uint32_t and d :: uint16_t
  assumes "unat t1 + unat d < 2 ^ 32" "t2 - t1 < ucast d"
  shows "t2 < t1 + ucast d"
proof -
  have ud: "unat (ucast d :: uint32_t) = unat d"
    by (simp add: unsigned_ucast_eq take_bit_nat_eq_self
        less_trans [OF unsigned_less [of d, simplified]])
  have k: "unat (t2 - t1) < unat d"
    using assms(2) by (simp add: word_less_nat_alt ud)
  have "unat (t1 + (t2 - t1)) = unat t1 + unat (t2 - t1)"
    using assms(1) k by (intro unat_add_lem [THEN iffD1]) simp
  moreover have "unat (t1 + ucast d) = unat t1 + unat d"
    using assms(1) ud by (intro unat_add_lem [THEN iffD1, THEN trans]) simp_all
  ultimately show ?thesis using k by (simp add: word_less_nat_alt)
qed

subsection \<open>TimedRead\<close>

lemma TimedRead_rejected:
  "t < next_readout' s \<Longrightarrow> RotaryEncoder_TimedRead sw d t s = (0, s)"
  by (simp add: RotaryEncoder_TimedRead_def not_le [symmetric])

lemma TimedRead_accepted:
  "next_readout' s \<le> t \<Longrightarrow>
   RotaryEncoder_TimedRead sw d t s = RotaryEncoder_Read sw (s\<lparr>next_readout' := t + ucast d\<rparr>)"
  by (simp add: RotaryEncoder_TimedRead_def)

lemma TimedRead_accepted_deadline:
  "next_readout' s \<le> t \<Longrightarrow> next_readout' (snd (RotaryEncoder_TimedRead sw d t s)) = t + ucast d"
  by (simp add: TimedRead_accepted RotaryEncoder_Read_state)

text \<open>
  C2, as the spec has it: \<open>TimedRead\<close> accepts a decode exactly when the debounce
  interval has elapsed modulo the counter width, also for timestamps on both sides of
  the counter's wrap. It does not. With \<open>debounce_time = 1\<close>, a call accepted at
  \<open>t = 0xFFFFFFFE\<close> sets \<open>next_readout_ = 0xFFFFFFFF\<close>; the next call comes two
  milliseconds later, at \<open>t = 0\<close>, when the deadline has been reached in modular
  arithmetic; it is refused: it returns \<open>0\<close> and leaves the state as it was.
\<close>

theorem deadline_test_counterexample:
  "next_readout' (snd (RotaryEncoder_TimedRead scripted_switch 1 0xFFFFFFFE
      (RotaryEncoder_Init scripted_switch
        \<lparr>SwitchA = ([0x00, 0x80], 0), SwitchB = ([0x00, 0x00], 0), SwitchClick = ([], 0),
         next_readout' = 0\<rparr>))) = 0xFFFFFFFF \<and>
   spec_deadline_reached 0 0xFFFFFFFF \<and>
   RotaryEncoder_TimedRead scripted_switch 1 0
      (snd (RotaryEncoder_TimedRead scripted_switch 1 0xFFFFFFFE
        (RotaryEncoder_Init scripted_switch
          \<lparr>SwitchA = ([0x00, 0x80], 0), SwitchB = ([0x00, 0x00], 0), SwitchClick = ([], 0),
           next_readout' = 0\<rparr>))) =
     (0, \<lparr>SwitchA = ([0x80], 0), SwitchB = ([0x00], 0), SwitchClick = ([], 0),
          next_readout' = 0xFFFFFFFF\<rparr>)"
  by (simp add: RotaryEncoder_TimedRead_def RotaryEncoder_Read_def RotaryEncoder_Init_def
      scripted_switch_def spec_deadline_reached_def)

text \<open>
  C2, amended: \<open>TimedRead\<close> accepts a decode exactly when \<open>next_readout_ \<le> t\<close> as
  unsigned 32-bit numbers, a plain unsigned comparison (the deadline itself,
  \<open>t + debounce_time\<close>, is computed modulo \<open>2 ^ 32\<close>). That comparison gives the answer
  of the modular test \<open>(t - next_readout_) as signed \<ge> 0\<close> exactly when the two
  timestamps are less than \<open>2 ^ 31\<close> apart as unsigned numbers
  (\<open>- 2 ^ 31 \<le> t - next_readout_ < 2 ^ 31\<close> on the integers), so it is the elapsed test
  away from the wrap and not across it.
\<close>

theorem TimedRead_compares_unsigned:
  "RotaryEncoder_TimedRead sw d t s =
     (if uint (next_readout' s) \<le> uint t
      then RotaryEncoder_Read sw (s\<lparr>next_readout' := t + ucast d\<rparr>) else (0, s)) \<and>
   ((uint (next_readout' s) \<le> uint t \<longleftrightarrow> spec_deadline_reached t (next_readout' s)) \<longleftrightarrow>
      - (2 ^ 31) \<le> uint t - uint (next_readout' s) \<and> uint t - uint (next_readout' s) < 2 ^ 31)"
  using unsigned_test_agrees_iff [of "next_readout' s" t]
  by (simp add: RotaryEncoder_TimedRead_def word_le_def)

theorem TimedRead_compares_unsigned_witness:
  "RotaryEncoder_TimedRead scripted_switch 1 1000
      \<lparr>SwitchA = ([0x80], 0), SwitchB = ([0x00], 0), SwitchClick = ([], 0),
       next_readout' = 999\<rparr> =
     (1, \<lparr>SwitchA = ([], 0), SwitchB = ([], 0), SwitchClick = ([], 0), next_readout' = 1001\<rparr>) \<and>
   spec_deadline_reached 1000 999"
  using TimedRead_compares_unsigned [where sw = scripted_switch and d = 1 and t = 1000 and
      s = "\<lparr>SwitchA = ([0x80], 0), SwitchB = ([0x00], 0), SwitchClick = ([], 0),
       next_readout' = 999\<rparr>"]
  by (simp add: RotaryEncoder_Read_def scripted_switch_def)

text \<open>
  C6, as the spec has it: a second call with \<open>now2 - now1 < debounce_interval\<close> after
  an accepted call returns \<open>0\<close> and samples no channel. It does not when the deadline
  wraps: with \<open>debounce_time = 1\<close>, the call accepted at \<open>t = 0xFFFFFFFF\<close> sets
  \<open>next_readout_ = 0\<close>, and a second call in the same millisecond is accepted again,
  samples the channels and returns \<open>+1\<close>.
\<close>

theorem second_call_counterexample:
  "(0xFFFFFFFF :: uint32_t) - 0xFFFFFFFF < ucast (1 :: uint16_t) \<and>
   RotaryEncoder_TimedRead scripted_switch 1 0xFFFFFFFF
      (RotaryEncoder_Init scripted_switch
        \<lparr>SwitchA = ([0x00, 0x80], 0), SwitchB = ([0x00, 0x00], 0), SwitchClick = ([], 0),
         next_readout' = 0\<rparr>) =
     (0, \<lparr>SwitchA = ([0x80], 0), SwitchB = ([0x00], 0), SwitchClick = ([], 0),
          next_readout' = 0\<rparr>) \<and>
   RotaryEncoder_TimedRead scripted_switch 1 0xFFFFFFFF
      \<lparr>SwitchA = ([0x80], 0), SwitchB = ([0x00], 0), SwitchClick = ([], 0),
       next_readout' = 0\<rparr> =
     (1, \<lparr>SwitchA = ([], 0), SwitchB = ([], 0), SwitchClick = ([], 0), next_readout' = 0\<rparr>)"
  by (simp add: RotaryEncoder_TimedRead_def RotaryEncoder_Read_def RotaryEncoder_Init_def
      scripted_switch_def)

text \<open>
  C6, amended: for every decoder state and timestamp \<open>t\<close>: if \<open>t < next_readout_\<close> as
  unsigned 32-bit numbers, \<open>TimedRead\<close> returns \<open>0\<close> and changes nothing (no switch is
  sampled, \<open>next_readout_\<close> stays); otherwise it sets
  \<open>next_readout_ = t + debounce_time\<close> modulo \<open>2 ^ 32\<close> and returns what \<open>Read\<close>
  returns. Consequently, after a call accepted at \<open>t\<close> with \<open>t + debounce_time\<close> not
  exceeding the 32-bit range, a second call at \<open>t'\<close> with \<open>t' - t < debounce_time\<close>
  returns \<open>0\<close> and samples no channel.
\<close>

theorem TimedRead_rate_limit:
  "(t < next_readout' s \<longrightarrow> RotaryEncoder_TimedRead sw d t s = (0, s)) \<and>
   (next_readout' s \<le> t \<longrightarrow>
      RotaryEncoder_TimedRead sw d t s =
        RotaryEncoder_Read sw (s\<lparr>next_readout' := t + ucast d\<rparr>) \<and>
      next_readout' (snd (RotaryEncoder_TimedRead sw d t s)) = t + ucast d) \<and>
   (next_readout' s \<le> t \<and> unat t + unat d < 2 ^ 32 \<and> t' - t < ucast d \<longrightarrow>
      RotaryEncoder_TimedRead sw d t' (snd (RotaryEncoder_TimedRead sw d t s)) =
        (0, snd (RotaryEncoder_TimedRead sw d t s)))"
proof (intro conjI impI)
  assume "t < next_readout' s"
  then show "RotaryEncoder_TimedRead sw d t s = (0, s)"
    by (rule TimedRead_rejected)
next
  assume "next_readout' s \<le> t"
  then show "RotaryEncoder_TimedRead sw d t s =
      RotaryEncoder_Read sw (s\<lparr>next_readout' := t + ucast d\<rparr>)"
    by (rule TimedRead_accepted)
next
  assume "next_readout' s \<le> t"
  then show "next_readout' (snd (RotaryEncoder_TimedRead sw d t s)) = t + ucast d"
    by (rule TimedRead_accepted_deadline)
next
  assume a: "next_readout' s \<le> t \<and> unat t + unat d < 2 ^ 32 \<and> t' - t < ucast d"
  then have "t' < t + ucast d"
    by (simp add: before_wrapped_deadline)
  with a have "t' < next_readout' (snd (RotaryEncoder_TimedRead sw d t s))"
    by (simp add: TimedRead_accepted_deadline)
  then show "RotaryEncoder_TimedRead sw d t' (snd (RotaryEncoder_TimedRead sw d t s)) =
      (0, snd (RotaryEncoder_TimedRead sw d t s))"
    by (rule TimedRead_rejected)
qed

theorem TimedRead_rate_limit_witness:
  "(5 :: uint32_t) < 10 \<and>
   RotaryEncoder_TimedRead scripted_switch 1 5
      \<lparr>SwitchA = ([0x80], 0), SwitchB = ([0x00], 0), SwitchClick = ([], 0),
       next_readout' = 10\<rparr> =
     (0, \<lparr>SwitchA = ([0x80], 0), SwitchB = ([0x00], 0), SwitchClick = ([], 0),
          next_readout' = 10\<rparr>) \<and>
   (10 :: uint32_t) \<le> 1000 \<and> unat (1000 :: uint32_t) + unat (20 :: uint16_t) < 2 ^ 32 \<and>
   (1019 :: uint32_t) - 1000 < ucast (20 :: uint16_t) \<and>
   RotaryEncoder_TimedRead scripted_switch 20 1000
      \<lparr>SwitchA = ([0x00, 0x80], 0), SwitchB = ([0x00, 0x00], 0), SwitchClick = ([], 0),
       next_readout' = 10\<rparr> =
     (0, \<lparr>SwitchA = ([0x80], 0), SwitchB = ([0x00], 0), SwitchClick = ([], 0),
          next_readout' = 1020\<rparr>) \<and>
   RotaryEncoder_TimedRead scripted_switch 20 1019
      \<lparr>SwitchA = ([0x80], 0), SwitchB = ([0x00], 0), SwitchClick = ([], 0),
       next_readout' = 1020\<rparr> =
     (0, \<lparr>SwitchA = ([0x80], 0), SwitchB = ([0x00], 0), SwitchClick = ([], 0),
          next_readout' = 1020\<rparr>)"
  using
    TimedRead_rate_limit [where sw = scripted_switch and d = 1 and t = 5 and t' = 5 and
      s = "\<lparr>SwitchA = ([0x80], 0), SwitchB = ([0x00], 0), SwitchClick = ([], 0),
       next_readout' = 10\<rparr>"]
    TimedRead_rate_limit [where sw = scripted_switch and d = 20 and t = 1000 and t' = 1019 and
      s = "\<lparr>SwitchA = ([0x00, 0x80], 0), SwitchB = ([0x00, 0x00], 0), SwitchClick = ([], 0),
       next_readout' = 10\<rparr>"]
  by (simp add: RotaryEncoder_TimedRead_def RotaryEncoder_Read_def scripted_switch_def)

section \<open>The tracker\<close>

lemma Tracker_Read_latched:
  "increment' s \<noteq> 0 \<Longrightarrow>
   RotaryEncoderTracker_Read sw s =
     (if clicked' s = 0
      then s\<lparr>Encoder := snd (RotaryEncoder_clicked sw (Encoder s)),
             clicked' := fst (RotaryEncoder_clicked sw (Encoder s))\<rparr>
      else s)"
  by (simp add: RotaryEncoderTracker_Read_def split: prod.splits)

lemma Tracker_Read_armed:
  "increment' s = 0 \<Longrightarrow>
   SwitchA (Encoder (RotaryEncoderTracker_Read sw s)) = snd (sw_Read sw (SwitchA (Encoder s))) \<and>
   SwitchB (Encoder (RotaryEncoderTracker_Read sw s)) = snd (sw_Read sw (SwitchB (Encoder s)))"
  by (simp add: RotaryEncoderTracker_Read_def Let_def RotaryEncoder_Read_state
      RotaryEncoder_clicked_eq split_beta)

lemma Tracker_Read_keeps_increment:
  "increment' s \<noteq> 0 \<Longrightarrow> increment' (RotaryEncoderTracker_Read sw s) = increment' s"
  by (simp add: Tracker_Read_latched)

lemma Tracker_Read_keeps_clicked:
  "clicked' s \<noteq> 0 \<Longrightarrow> clicked' (RotaryEncoderTracker_Read sw s) = clicked' s"
  by (simp add: RotaryEncoderTracker_Read_def Let_def split: prod.splits)

lemma polls_keep_increment:
  "increment' s \<noteq> 0 \<Longrightarrow> increment' ((RotaryEncoderTracker_Read sw ^^ n) s) = increment' s"
  by (induction n) (simp_all add: Tracker_Read_keeps_increment)

lemma polls_keep_clicked:
  "clicked' s \<noteq> 0 \<Longrightarrow> clicked' ((RotaryEncoderTracker_Read sw ^^ n) s) = clicked' s"
  by (induction n) (simp_all add: Tracker_Read_keeps_clicked)

text \<open>
  C7. The latch coalesces and does not accumulate. For each field on its own: once
  \<open>increment_\<close> is non-zero, any number \<open>n\<close> of further calls of the tracker's \<open>Read\<close>
  leaves it as it is, and so the value \<open>increment()\<close> reports; once \<open>clicked_\<close> is
  non-zero, the same holds for it and for \<open>clicked()\<close>. This is so whatever the switches
  deliver during those calls, another pulse or click included: later ones are dropped,
  not added. Only \<open>Flush\<close> writes the fields otherwise. (\<open>n\<close> calls in a row are
  \<open>RotaryEncoderTracker_Read sw ^^ n\<close>.)
\<close>

theorem latch_coalesces:
  "(increment' s \<noteq> 0 \<longrightarrow>
      increment' ((RotaryEncoderTracker_Read sw ^^ n) s) = increment' s \<and>
      RotaryEncoderTracker_increment ((RotaryEncoderTracker_Read sw ^^ n) s) =
        RotaryEncoderTracker_increment s) \<and>
   (clicked' s \<noteq> 0 \<longrightarrow>
      clicked' ((RotaryEncoderTracker_Read sw ^^ n) s) = clicked' s \<and>
      RotaryEncoderTracker_clicked ((RotaryEncoderTracker_Read sw ^^ n) s) =
        RotaryEncoderTracker_clicked s)"
  by (simp add: polls_keep_increment polls_keep_clicked RotaryEncoderTracker_increment_def
      RotaryEncoderTracker_clicked_def)

text \<open>
  In the first state a \<open>+1\<close> is latched and channel B is about to show two clean edges;
  in the second a click is latched, the step is not, and the channels are about to show
  an A edge and then a B edge. After three calls the latched field is what it was.
\<close>

theorem latch_coalesces_witness:
  "increment' \<lparr>Encoder = \<lparr>SwitchA = ([0x00, 0x00, 0x00], 0), SwitchB = ([0x80, 0x00, 0x80], 0),
        SwitchClick = ([0x7f], 1), next_readout' = 0\<rparr>, increment' = 1, clicked' = 0\<rparr> \<noteq> 0 \<and>
   increment' ((RotaryEncoderTracker_Read scripted_switch ^^ 3)
      \<lparr>Encoder = \<lparr>SwitchA = ([0x00, 0x00, 0x00], 0), SwitchB = ([0x80, 0x00, 0x80], 0),
        SwitchClick = ([0x7f], 1), next_readout' = 0\<rparr>, increment' = 1, clicked' = 0\<rparr>) = 1 \<and>
   clicked' \<lparr>Encoder = \<lparr>SwitchA = ([0x80, 0x00], 0), SwitchB = ([0x00, 0x80], 0),
        SwitchClick = ([0x7f], 0), next_readout' = 0\<rparr>, increment' = 0, clicked' = 1\<rparr> \<noteq> 0 \<and>
   clicked' ((RotaryEncoderTracker_Read scripted_switch ^^ 3)
      \<lparr>Encoder = \<lparr>SwitchA = ([0x80, 0x00], 0), SwitchB = ([0x00, 0x80], 0),
        SwitchClick = ([0x7f], 0), next_readout' = 0\<rparr>, increment' = 0, clicked' = 1\<rparr>) = 1"
  using
    latch_coalesces [where sw = scripted_switch and n = 3 and s =
      "\<lparr>Encoder = \<lparr>SwitchA = ([0x00, 0x00, 0x00], 0), SwitchB = ([0x80, 0x00, 0x80], 0),
        SwitchClick = ([0x7f], 1), next_readout' = 0\<rparr>, increment' = 1, clicked' = 0\<rparr>"]
    latch_coalesces [where sw = scripted_switch and n = 3 and s =
      "\<lparr>Encoder = \<lparr>SwitchA = ([0x80, 0x00], 0), SwitchB = ([0x00, 0x80], 0),
        SwitchClick = ([0x7f], 0), next_readout' = 0\<rparr>, increment' = 0, clicked' = 1\<rparr>"]
  by simp

text \<open>
  C10. Whenever \<open>increment_\<close> is already non-zero, the tracker's \<open>Read\<close> does not call
  the decoder's \<open>Read\<close>: channel A, channel B and \<open>next_readout_\<close> are as before, the
  button switch is touched by \<open>raised()\<close> alone (and only if \<open>clicked_\<close> is still zero),
  \<open>clicked_\<close> can only take the value \<open>raised()\<close> returns, and the outcome is the same
  whatever the switches' \<open>Read\<close> would have done (\<open>f\<close> below is any other one). When
  \<open>increment_\<close> is zero the same call does sample the channels, so what happens to the
  switches depends on the step field: a latched step stops all sampling until \<open>Flush\<close>.
\<close>

theorem latched_step_stops_sampling:
  "(increment' s \<noteq> 0 \<longrightarrow>
      RotaryEncoderTracker_Read sw s =
        (if clicked' s = 0
         then s\<lparr>Encoder := (Encoder s)\<lparr>SwitchClick := snd (sw_raised sw (SwitchClick (Encoder s)))\<rparr>,
                clicked' := fst (sw_raised sw (SwitchClick (Encoder s)))\<rparr>
         else s) \<and>
      SwitchA (Encoder (RotaryEncoderTracker_Read sw s)) = SwitchA (Encoder s) \<and>
      SwitchB (Encoder (RotaryEncoderTracker_Read sw s)) = SwitchB (Encoder s) \<and>
      SwitchClick (Encoder (RotaryEncoderTracker_Read sw s)) =
        (if clicked' s = 0 then snd (sw_raised sw (SwitchClick (Encoder s)))
         else SwitchClick (Encoder s)) \<and>
      next_readout' (Encoder (RotaryEncoderTracker_Read sw s)) = next_readout' (Encoder s) \<and>
      increment' (RotaryEncoderTracker_Read sw s) = increment' s \<and>
      RotaryEncoderTracker_Read (sw\<lparr>sw_Read := f\<rparr>) s = RotaryEncoderTracker_Read sw s) \<and>
   (increment' s = 0 \<longrightarrow>
      SwitchA (Encoder (RotaryEncoderTracker_Read sw s)) =
        snd (sw_Read sw (SwitchA (Encoder s))) \<and>
      SwitchB (Encoder (RotaryEncoderTracker_Read sw s)) =
        snd (sw_Read sw (SwitchB (Encoder s))))"
  by (simp add: Tracker_Read_latched Tracker_Read_armed RotaryEncoder_clicked_eq)

theorem latched_step_stops_sampling_witness:
  "increment' \<lparr>Encoder = \<lparr>SwitchA = ([0x00], 0), SwitchB = ([0x80], 0),
        SwitchClick = ([0x7f], 1), next_readout' = 0\<rparr>, increment' = 1, clicked' = 0\<rparr> \<noteq> 0 \<and>
   RotaryEncoderTracker_Read scripted_switch
      \<lparr>Encoder = \<lparr>SwitchA = ([0x00], 0), SwitchB = ([0x80], 0),
        SwitchClick = ([0x7f], 1), next_readout' = 0\<rparr>, increment' = 1, clicked' = 0\<rparr> =
      \<lparr>Encoder = \<lparr>SwitchA = ([0x00], 0), SwitchB = ([0x80], 0),
        SwitchClick = ([0x7f], 0), next_readout' = 0\<rparr>, increment' = 1, clicked' = 1\<rparr> \<and>
   increment' \<lparr>Encoder = \<lparr>SwitchA = ([0x00], 0), SwitchB = ([0x80], 0),
        SwitchClick = ([0x7f], 1), next_readout' = 0\<rparr>, increment' = 0, clicked' = 0\<rparr> = 0 \<and>
   SwitchB (Encoder (RotaryEncoderTracker_Read scripted_switch
      \<lparr>Encoder = \<lparr>SwitchA = ([0x00], 0), SwitchB = ([0x80], 0),
        SwitchClick = ([0x7f], 1), next_readout' = 0\<rparr>, increment' = 0, clicked' = 0\<rparr>)) =
      ([], 0)"
  using
    latched_step_stops_sampling [where sw = scripted_switch and s =
      "\<lparr>Encoder = \<lparr>SwitchA = ([0x00], 0), SwitchB = ([0x80], 0),
        SwitchClick = ([0x7f], 1), next_readout' = 0\<rparr>, increment' = 1, clicked' = 0\<rparr>"]
    latched_step_stops_sampling [where sw = scripted_switch and s =
      "\<lparr>Encoder = \<lparr>SwitchA = ([0x00], 0), SwitchB = ([0x80], 0),
        SwitchClick = ([0x7f], 1), next_readout' = 0\<rparr>, increment' = 0, clicked' = 0\<rparr>"]
  by (simp add: scripted_switch_def)

text \<open>
  C3. The spec has \<open>increment()\<close> return a value in \<open>{-1, 0, +1}\<close>, and \<open>-1\<close> once a
  \<open>-1\<close> step is latched. The call below latches a \<open>-1\<close> step (channel B shows a clean
  edge, channel A is quiet): the field \<open>increment_\<close> then holds \<open>-1\<close>, and
  \<open>increment()\<close>, whose return type is \<open>uint8_t\<close>, returns \<open>255\<close>.
\<close>

theorem increment_of_latched_minus_one:
  "sint (increment' (RotaryEncoderTracker_Read scripted_switch
      \<lparr>Encoder = \<lparr>SwitchA = ([0x00], 0), SwitchB = ([0x80], 0), SwitchClick = ([], 0),
         next_readout' = 0\<rparr>, increment' = 0, clicked' = 0\<rparr>)) = - 1 \<and>
   uint (RotaryEncoderTracker_increment (RotaryEncoderTracker_Read scripted_switch
      \<lparr>Encoder = \<lparr>SwitchA = ([0x00], 0), SwitchB = ([0x80], 0), SwitchClick = ([], 0),
         next_readout' = 0\<rparr>, increment' = 0, clicked' = 0\<rparr>)) = 255"
  by (simp add: RotaryEncoderTracker_Read_def RotaryEncoder_Read_def RotaryEncoder_clicked_def
      RotaryEncoderTracker_increment_def scripted_switch_def unsigned_minus_1_eq_mask
      mask_eq_exp_minus_1)

subsection \<open>Flush\<close>

text \<open>
  C9. After \<open>Flush\<close> (the latch's drain), for every latch state, the accessor
  \<open>increment()\<close> returns 0 and the accessor \<open>clicked()\<close> returns 0 (false): both fields
  are re-armed.
\<close>

theorem Flush_rearms:
  "RotaryEncoderTracker_increment (RotaryEncoderTracker_Flush s) = 0 \<and>
   RotaryEncoderTracker_clicked (RotaryEncoderTracker_Flush s) = 0 \<and>
   increment' (RotaryEncoderTracker_Flush s) = 0 \<and>
   clicked' (RotaryEncoderTracker_Flush s) = 0"
  by (simp add: RotaryEncoderTracker_Flush_def RotaryEncoderTracker_increment_def
      RotaryEncoderTracker_clicked_def)

end
